theory Spec2Isabelle
  imports Main "HOL-Library.Sublist" "HOL-Library.Multiset"
begin

section \<open>Data model (the type declarations of the repository)\<close>

text \<open>
  \<^verbatim>\<open>export type FileType = 'image' | 'text' | 'pdf' | 'video' | 'audio' | 'other';\<close>
\<close>

datatype FileType = Image_kind | Text_kind | Pdf_kind | Video_kind | Audio_kind | Other_kind

text \<open>
  \<^verbatim>\<open>interface AIAnalysis { summary: string; tags: string[]; isAnalyzing: boolean; }\<close>
  The analysis service returns the first two fields only
  (\<^verbatim>\<open>Promise<{ summary: string; tags: string[] }>\<close>), so the record is declared in two steps.
\<close>

record AnalysisResult =
  summary :: string
  tags :: "string list"

record AIAnalysis = AnalysisResult +
  isAnalyzing :: bool

text \<open>
  \<^verbatim>\<open>interface DriveFile { id; name; type; mimeType; size; uploadDate; data; notes; aiData? }\<close>
  The fields \<open>id\<close>, \<open>type\<close>, \<open>size\<close> and \<open>notes\<close> carry the suffix \<open>_file\<close>, since the plain names
  are taken in Isabelle. The timestamp is the integer number of milliseconds that
  \<^verbatim>\<open>Date.now()\<close> returns; the optional \<open>aiData\<close> is an option.
\<close>

record DriveFile =
  id_file :: string
  name :: string
  type_file :: FileType
  mimeType :: string
  size_file :: nat
  uploadDate :: int
  data :: string
  notes_file :: string
  aiData :: "AIAnalysis option"

section \<open>Kind detection: \<open>getFileType\<close>\<close>

text \<open>
  \<^verbatim>\<open>startsWith\<close> and \<^verbatim>\<open>endsWith\<close> of the source are \<^const>\<open>prefix\<close> and
  \<^const>\<open>suffix\<close> on character lists.
\<close>

definition getFileType :: "string \<Rightarrow> string \<Rightarrow> FileType" where
  "getFileType mime nm =
     (if prefix ''image/'' mime then Image_kind
      else if prefix ''video/'' mime then Video_kind
      else if prefix ''audio/'' mime then Audio_kind
      else if mime = ''application/pdf'' then Pdf_kind
      else if prefix ''text/'' mime \<or> suffix ''.txt'' nm \<or> suffix ''.md'' nm then Text_kind
      else Other_kind)"

section \<open>The catalog and its mutations\<close>

text \<open>
  The catalog is the React state \<^verbatim>\<open>files\<close>, an array of records. Every change goes
  through \<^verbatim>\<open>setFiles(prev => ...)\<close>; each updater of the source is one constructor of
  \<open>mutation\<close>, and \<open>apply_mutation\<close> is the function the updater computes.
\<close>

type_synonym catalog = "DriveFile list"

datatype mutation =
    Insert DriveFile
  | SuccessPatch string AnalysisResult
  | FailurePatch string
  | Delete string
  | Edit string string string

definition success_enrichment :: "AnalysisResult \<Rightarrow> AIAnalysis" where
  \<comment> \<open>\<^verbatim>\<open>{ ...aiResult, isAnalyzing: false }\<close>\<close>
  "success_enrichment aiResult =
     \<lparr>summary = summary aiResult, tags = tags aiResult, isAnalyzing = False\<rparr>"

definition failure_enrichment :: AIAnalysis where
  \<comment> \<open>\<^verbatim>\<open>{ isAnalyzing: false, summary: "Analysis failed", tags: [] }\<close>\<close>
  "failure_enrichment = \<lparr>summary = ''Analysis failed'', tags = [], isAnalyzing = False\<rparr>"

fun apply_mutation :: "mutation \<Rightarrow> catalog \<Rightarrow> catalog" where
  "apply_mutation (Insert newFile) prev = newFile # prev"
| "apply_mutation (SuccessPatch i aiResult) prev =
     map (\<lambda>f. if id_file f = i then f\<lparr>aiData := Some (success_enrichment aiResult)\<rparr> else f) prev"
| "apply_mutation (FailurePatch i) prev =
     map (\<lambda>f. if id_file f = i then f\<lparr>aiData := Some failure_enrichment\<rparr> else f) prev"
| "apply_mutation (Delete i) prev = filter (\<lambda>f. id_file f \<noteq> i) prev"
| "apply_mutation (Edit i nm nt) prev =
     map (\<lambda>f. if id_file f = i then f\<lparr>name := nm, notes_file := nt\<rparr> else f) prev"

definition ids :: "catalog \<Rightarrow> string set" where
  "ids c = id_file ` set c"

fun inserts_id :: "string \<Rightarrow> mutation \<Rightarrow> bool" where
  "inserts_id i (Insert newFile) = (id_file newFile = i)"
| "inserts_id i _ = False"

definition apply_all :: "mutation list \<Rightarrow> catalog \<Rightarrow> catalog" where
  "apply_all ms c = fold apply_mutation ms c"

text \<open>
  \<^verbatim>\<open>handleDelete\<close> asks \<^verbatim>\<open>confirm(...)\<close> first; \<open>confirmed\<close> is the answer.
  \<^verbatim>\<open>handleSaveEdit\<close> returns at once when no record is being edited.
\<close>

definition handleDelete :: "bool \<Rightarrow> string \<Rightarrow> mutation list" where
  "handleDelete confirmed i = (if confirmed then [Delete i] else [])"

definition handleSaveEdit :: "string option \<Rightarrow> string \<Rightarrow> string \<Rightarrow> mutation list" where
  "handleSaveEdit editingFileId editName editNotes =
     (case editingFileId of
        None \<Rightarrow> []
      | Some i \<Rightarrow> if i = [] then [] else [Edit i editName editNotes])"

section \<open>Upload intake: the synchronous part of \<open>handleConfirmUpload\<close>\<close>

text \<open>
  The browser's \<^verbatim>\<open>File\<close> object, as far as the handler reads it, and the upload state
  of the dashboard. \<^verbatim>\<open>uploadFile\<close> and \<^verbatim>\<open>uploadPreview\<close> are \<^verbatim>\<open>null\<close> until staged.
\<close>

record BrowserFile =
  file_name :: string
  file_type :: string
  file_size :: nat

record UploadState =
  uploadFile :: "BrowserFile option"
  uploadPreview :: "string option"
  uploadName :: string
  uploadNotes :: string

definition falsy :: "string option \<Rightarrow> bool" where
  \<comment> \<open>\<^verbatim>\<open>!s\<close> for a value that is a string, \<^verbatim>\<open>null\<close> or \<^verbatim>\<open>undefined\<close>\<close>
  "falsy s = (case s of None \<Rightarrow> True | Some t \<Rightarrow> t = [])"

definition pending_enrichment :: AIAnalysis where
  "pending_enrichment = \<lparr>summary = [], tags = [], isAnalyzing = True\<rparr>"

text \<open>
  \<open>uuid\<close> is the value of \<^verbatim>\<open>crypto.randomUUID()\<close> and \<open>now\<close> the value of
  \<^verbatim>\<open>Date.now()\<close> at the call. The result is \<open>None\<close> on the early return.
\<close>

definition newFile_of :: "UploadState \<Rightarrow> string \<Rightarrow> int \<Rightarrow> DriveFile option" where
  "newFile_of u uuid now =
     (case uploadFile u of
        None \<Rightarrow> None
      | Some file \<Rightarrow>
         (case uploadPreview u of
            None \<Rightarrow> None
          | Some preview \<Rightarrow>
              if preview = [] then None
              else Some \<lparr>id_file = uuid,
                         name = uploadName u,
                         type_file = getFileType (file_type file) (uploadName u),
                         mimeType = file_type file,
                         size_file = file_size file,
                         uploadDate = now,
                         data = preview,
                         notes_file = uploadNotes u,
                         aiData = Some pending_enrichment\<rparr>))"

definition confirm_insert :: "UploadState \<Rightarrow> string \<Rightarrow> int \<Rightarrow> mutation list" where
  \<comment> \<open>the \<^verbatim>\<open>setFiles\<close> calls of \<^verbatim>\<open>handleConfirmUpload\<close> before its \<^verbatim>\<open>await\<close>\<close>
  "confirm_insert u uuid now =
     (case newFile_of u uuid now of None \<Rightarrow> [] | Some newFile \<Rightarrow> [Insert newFile])"

definition newest_first :: "catalog \<Rightarrow> bool" where
  "newest_first c = sorted (map (\<lambda>f. - uploadDate f) c)"

section \<open>The analysis service: \<open>getClient\<close> and \<open>analyzeFileContent\<close>\<close>

text \<open>
  A thrown JavaScript exception is a value of \<open>error\<close>. The environment of the service
  is a record: the configured key \<^verbatim>\<open>process.env.API_KEY\<close>, the remote call
  \<^verbatim>\<open>ai.models.generateContent\<close> (given the key of the client and the request, it either
  throws or answers with a response whose \<^verbatim>\<open>text\<close> may be \<^verbatim>\<open>undefined\<close>), and
  \<^verbatim>\<open>JSON.parse\<close> at the declared result type. The awaited call is taken to settle.
\<close>

datatype error = Error string | SyntaxError string

record GenerateContentRequest =
  request_model :: string
  request_mimeType :: string
  request_data :: string
  request_text :: string

record AnalysisEnv =
  API_KEY :: "string option"
  generateContent :: "string \<Rightarrow> GenerateContentRequest \<Rightarrow> error + string option"
  JSON_parse :: "string \<Rightarrow> error + AnalysisResult"

definition getClient :: "AnalysisEnv \<Rightarrow> error + string" where
  \<comment> \<open>the client is the key it was built with; \<^verbatim>\<open>!apiKey\<close> holds for \<^verbatim>\<open>undefined\<close> and for \<^verbatim>\<open>""\<close>\<close>
  "getClient env =
     (case API_KEY env of
        None \<Rightarrow> Inl (Error ''API Key not found'')
      | Some apiKey \<Rightarrow>
          if apiKey = [] then Inl (Error ''API Key not found'') else Inr apiKey)"

fun split_comma :: "string \<Rightarrow> string list" where
  \<comment> \<open>\<^verbatim>\<open>s.split(',')\<close>\<close>
  "split_comma [] = [[]]"
| "split_comma (c # cs) =
     (if c = CHR '','' then [] # split_comma cs
      else (case split_comma cs of
              [] \<Rightarrow> [[c]]
            | x # xs \<Rightarrow> (c # x) # xs))"

definition base64Data :: "string \<Rightarrow> string" where
  \<comment> \<open>\<^verbatim>\<open>file.data.split(',')[1] || file.data\<close>\<close>
  "base64Data d =
     (case split_comma d of
        _ # x # _ \<Rightarrow> if x = [] then d else x
      | _ \<Rightarrow> d)"

definition analysis_prompt :: string where
  "analysis_prompt = ''Analyze this file. Provide a concise summary (max 2 sentences) and a list of 3-5 relevant tags to help categorize it. Focus on the visual content for images/videos, audio content for music/audio, or text content for documents.''"

definition analysis_request :: "DriveFile \<Rightarrow> GenerateContentRequest" where
  "analysis_request file =
     \<lparr>request_model = ''gemini-2.5-flash'',
      request_mimeType = mimeType file,
      request_data = base64Data (data file),
      request_text = analysis_prompt\<rparr>"

definition fallback_result :: AnalysisResult where
  "fallback_result =
     \<lparr>summary = ''Could not generate summary at this time.'', tags = [''untagged'']\<rparr>"

definition try_block :: "AnalysisEnv \<Rightarrow> string \<Rightarrow> DriveFile \<Rightarrow> error + AnalysisResult" where
  \<comment> \<open>the body of \<^verbatim>\<open>try { ... }\<close>: the call, the empty-answer check, the parse\<close>
  "try_block env ai file =
     (case generateContent env ai (analysis_request file) of
        Inl e \<Rightarrow> Inl e
      | Inr text \<Rightarrow>
         (case text of
            None \<Rightarrow> Inl (Error ''No response from AI'')
          | Some t \<Rightarrow>
              if t = [] then Inl (Error ''No response from AI'') else JSON_parse env t))"

definition analyzeFileContent :: "AnalysisEnv \<Rightarrow> DriveFile \<Rightarrow> error + AnalysisResult" where
  "analyzeFileContent env file =
     (case getClient env of
        Inl e \<Rightarrow> Inl e
      | Inr ai \<Rightarrow>
         (case try_block env ai file of
            Inl e \<Rightarrow> Inr fallback_result
          | Inr r \<Rightarrow> Inr r))"

section \<open>The asynchronous part of \<open>handleConfirmUpload\<close>\<close>

definition enrichment_patch :: "AnalysisEnv \<Rightarrow> DriveFile \<Rightarrow> mutation" where
  \<comment> \<open>\<^verbatim>\<open>try { const aiResult = await analyzeFileContent(newFile); ... } catch (err) { ... }\<close>\<close>
  "enrichment_patch env newFile =
     (case analyzeFileContent env newFile of
        Inr aiResult \<Rightarrow> SuccessPatch (id_file newFile) aiResult
      | Inl err \<Rightarrow> FailurePatch (id_file newFile))"

definition handleConfirmUpload ::
  "AnalysisEnv \<Rightarrow> UploadState \<Rightarrow> string \<Rightarrow> int \<Rightarrow> mutation list" where
  \<comment> \<open>every \<^verbatim>\<open>setFiles\<close> call of one run of the handler, in order\<close>
  "handleConfirmUpload env u uuid now =
     (case newFile_of u uuid now of
        None \<Rightarrow> []
      | Some newFile \<Rightarrow> [Insert newFile, enrichment_patch env newFile])"

fun is_enrichment_patch :: "mutation \<Rightarrow> bool" where
  "is_enrichment_patch (SuccessPatch i r) = True"
| "is_enrichment_patch (FailurePatch i) = True"
| "is_enrichment_patch _ = False"

section \<open>The derived view: \<open>filteredFiles\<close>\<close>

datatype TypeFilter = All_types | Only FileType

datatype DateRange = All_dates | Today_range | Week_range | Month_range

record FilterState =
  search :: string
  type_filter :: TypeFilter
  dateRange :: DateRange

definition lower_char :: "char \<Rightarrow> char" where
  "lower_char c =
     (let n = (of_char c :: nat) in if 65 \<le> n \<and> n \<le> 90 then char_of (n + 32) else c)"

definition toLowerCase :: "string \<Rightarrow> string" where
  \<comment> \<open>on the ASCII letters; other characters are kept\<close>
  "toLowerCase s = map lower_char s"

definition includes_str :: "string \<Rightarrow> string \<Rightarrow> bool" where
  \<comment> \<open>\<^verbatim>\<open>s.includes(q)\<close>\<close>
  "includes_str s q = sublist q s"

definition matches_search :: "string \<Rightarrow> DriveFile \<Rightarrow> bool" where
  \<comment> \<open>the predicate of the search filter; \<^verbatim>\<open>f.aiData?.\<close> gives \<^verbatim>\<open>undefined\<close>, which is falsy\<close>
  "matches_search q f =
     (includes_str (toLowerCase (name f)) q \<or>
      includes_str (toLowerCase (notes_file f)) q \<or>
      (case aiData f of None \<Rightarrow> False | Some a \<Rightarrow> includes_str (toLowerCase (summary a)) q) \<or>
      (case aiData f of None \<Rightarrow> False
       | Some a \<Rightarrow> list_ex (\<lambda>t. includes_str (toLowerCase t) q) (tags a)))"

definition matches_type :: "TypeFilter \<Rightarrow> DriveFile \<Rightarrow> bool" where
  "matches_type t f = (case t of All_types \<Rightarrow> True | Only k \<Rightarrow> type_file f = k)"

definition sort_by_date_desc :: "catalog \<Rightarrow> catalog" where
  \<comment> \<open>\<^verbatim>\<open>.sort((a, b) => b.uploadDate - a.uploadDate)\<close>; the sort of arrays is stable\<close>
  "sort_by_date_desc xs = sort_key (\<lambda>f. - uploadDate f) xs"

text \<open>
  \<^verbatim>\<open>Array.prototype.filter\<close> returns a new array, \<^verbatim>\<open>Array.prototype.sort\<close> sorts the
  array it is called on and returns that same array. The source starts from
  \<^verbatim>\<open>let result = files\<close>, so \<open>result\<close> is the state array itself until a filter replaces
  it. The model carries that as a flag and returns a pair: the view, and the state array
  \<^verbatim>\<open>files\<close> as it is after the call.
\<close>

definition filteredFiles :: "catalog \<Rightarrow> FilterState \<Rightarrow> catalog \<times> catalog" where
  "filteredFiles files flt =
     (let (result1, alias1) =
            (if search flt \<noteq> []
             then (filter (matches_search (toLowerCase (search flt))) files, False)
             else (files, True));
          (result2, alias2) =
            (if type_filter flt \<noteq> All_types
             then (filter (matches_type (type_filter flt)) result1, False)
             else (result1, alias1));
          sorted_result = sort_by_date_desc result2
      in (sorted_result, if alias2 then sorted_result else files))"

definition derivedView :: "catalog \<Rightarrow> FilterState \<Rightarrow> catalog" where
  "derivedView files flt = fst (filteredFiles files flt)"

section \<open>Hydration and persistence in \<open>DriveDashboard\<close>\<close>

definition storage_key :: "string \<Rightarrow> string" where
  "storage_key uid = ''gemini-drive-files-'' @ uid"

text \<open>
  \<open>parse\<close> is \<^verbatim>\<open>JSON.parse\<close> at the declared type of the state, \<^verbatim>\<open>DriveFile[]\<close>; it
  throws a \<^verbatim>\<open>SyntaxError\<close> on text that is not JSON. \<open>localStorage\<close> is a map from keys to
  strings; \<^verbatim>\<open>getItem\<close> gives \<^verbatim>\<open>null\<close> for a missing key.
\<close>

definition initial_files ::
  "(string \<Rightarrow> error + catalog) \<Rightarrow> (string \<rightharpoonup> string) \<Rightarrow> string \<Rightarrow> error + catalog" where
  "initial_files parse localStorage uid =
     (case localStorage (storage_key uid) of
        None \<Rightarrow> Inr []
      | Some saved \<Rightarrow> if saved = [] then Inr [] else parse saved)"

record Dashboard =
  files :: catalog
  filter_state :: FilterState
  localStorage :: "string \<rightharpoonup> string"

definition initial_filter :: FilterState where
  "initial_filter = \<lparr>search = [], type_filter = All_types, dateRange = All_dates\<rparr>"

datatype event = Mutate mutation | SetFilter FilterState

text \<open>
  One event of the dashboard, with \<open>stringify\<close> for \<^verbatim>\<open>JSON.stringify\<close>. A mutation replaces
  the state array, the component renders (the memoised view is recomputed, which may sort
  the state array), and then the effect with dependencies \<^verbatim>\<open>[files, user.uid]\<close> runs and
  writes the whole catalog. A change of the filter renders too, but leaves the identity of
  \<^verbatim>\<open>files\<close> as it was, so the effect does not run.
\<close>

definition render :: "Dashboard \<Rightarrow> Dashboard" where
  "render s = s\<lparr>files := snd (filteredFiles (files s) (filter_state s))\<rparr>"

definition persist :: "(catalog \<Rightarrow> string) \<Rightarrow> string \<Rightarrow> Dashboard \<Rightarrow> Dashboard" where
  "persist stringify uid s =
     s\<lparr>localStorage := (localStorage s)(storage_key uid \<mapsto> stringify (files s))\<rparr>"

fun step :: "(catalog \<Rightarrow> string) \<Rightarrow> string \<Rightarrow> event \<Rightarrow> Dashboard \<Rightarrow> Dashboard" where
  "step stringify uid (Mutate m) s =
     persist stringify uid (render (s\<lparr>files := apply_mutation m (files s)\<rparr>))"
| "step stringify uid (SetFilter flt) s = render (s\<lparr>filter_state := flt\<rparr>)"

definition run :: "(catalog \<Rightarrow> string) \<Rightarrow> string \<Rightarrow> event list \<Rightarrow> Dashboard \<Rightarrow> Dashboard" where
  "run stringify uid evs s = fold (step stringify uid) evs s"

definition mount ::
  "(string \<Rightarrow> error + catalog) \<Rightarrow> (catalog \<Rightarrow> string) \<Rightarrow> (string \<rightharpoonup> string) \<Rightarrow> string
     \<Rightarrow> error + Dashboard" where
  \<comment> \<open>the first render of the component: lazy initial state, render, effect\<close>
  "mount parse stringify store uid =
     (case initial_files parse store uid of
        Inl e \<Rightarrow> Inl e
      | Inr c \<Rightarrow>
          Inr (persist stringify uid
                 (render \<lparr>files = c, filter_state = initial_filter, localStorage = store\<rparr>)))"

definition in_sync :: "(catalog \<Rightarrow> string) \<Rightarrow> string \<Rightarrow> Dashboard \<Rightarrow> bool" where
  "in_sync stringify uid s = (localStorage s (storage_key uid) = Some (stringify (files s)))"

section \<open>Grouping by date: \<open>groupFilesByDate\<close>\<close>

text \<open>
  The source reads the calendar through the host's \<^verbatim>\<open>Date\<close>:
  \<^item> \<^verbatim>\<open>new Date(t).toDateString()\<close> names the local civil day of the instant \<open>t\<close>; two such
    strings are equal exactly when the local days are, so the model compares the local
    day number \<open>local_day\<close>. The zone is the function \<open>tz\<close> from an instant (milliseconds
    since the epoch, UTC) to the local offset in milliseconds at that instant;
  \<^item> \<^verbatim>\<open>yesterday.setDate(yesterday.getDate() - 1)\<close> moves the local civil date one day back,
    so its day number is one less;
  \<^item> \<^verbatim>\<open>Intl.DateTimeFormat('en-US', {month: 'long', day: 'numeric', year: 'numeric'})\<close>
    prints the local civil date as month name, day, comma, year (\<open>format_long\<close>), for the
    years of the common era.
  The source calls \<^verbatim>\<open>new Date()\<close> twice for every file; \<open>clock n\<close> is the instant that the
  \<open>n\<close>-th of these calls returns.
\<close>

definition ms_per_day :: int where
  "ms_per_day = 86400000"

definition local_day :: "(int \<Rightarrow> int) \<Rightarrow> int \<Rightarrow> int" where
  "local_day tz t = (t + tz t) div ms_per_day"

definition civil_from_days :: "int \<Rightarrow> int \<times> int \<times> int" where
  \<comment> \<open>year, month (1 to 12) and day of the month of a day number counted from 1970-01-01\<close>
  "civil_from_days z0 =
     (let z = z0 + 719468;
          era = z div 146097;
          doe = z mod 146097;
          yoe = (doe - doe div 1460 + doe div 36524 - doe div 146096) div 365;
          doy = doe - (365 * yoe + yoe div 4 - yoe div 100);
          mp = (5 * doy + 2) div 153;
          d = doy - (153 * mp + 2) div 5 + 1;
          m = (if mp < 10 then mp + 3 else mp - 9);
          y = yoe + era * 400 + (if m \<le> 2 then 1 else 0)
      in (y, m, d))"

definition month_name :: "int \<Rightarrow> string" where
  "month_name m =
     (if m = 1 then ''January'' else if m = 2 then ''February'' else if m = 3 then ''March''
      else if m = 4 then ''April'' else if m = 5 then ''May'' else if m = 6 then ''June''
      else if m = 7 then ''July'' else if m = 8 then ''August''
      else if m = 9 then ''September'' else if m = 10 then ''October''
      else if m = 11 then ''November'' else ''December'')"

fun decimal :: "nat \<Rightarrow> string" where
  "decimal n =
     (if n < 10 then [char_of (48 + n)] else decimal (n div 10) @ [char_of (48 + n mod 10)])"

declare decimal.simps [simp del]

definition format_long :: "int \<Rightarrow> string" where
  "format_long day_number =
     (case civil_from_days day_number of
        (y, m, d) \<Rightarrow> month_name m @ '' '' @ decimal (nat d) @ '', '' @ decimal (nat y))"

definition date_key :: "(int \<Rightarrow> int) \<Rightarrow> int \<Rightarrow> int \<Rightarrow> DriveFile \<Rightarrow> string" where
  \<comment> \<open>the bucket label of one file; \<open>today\<close> and \<open>yesterday_now\<close> are the two clock readings\<close>
  "date_key tz today yesterday_now file =
     (let date = local_day tz (uploadDate file);
          key = format_long date
      in if date = local_day tz today then ''Today''
         else if date = local_day tz yesterday_now - 1 then ''Yesterday''
         else key)"

type_synonym groups = "(string \<times> DriveFile list) list"

fun push_group :: "string \<Rightarrow> DriveFile \<Rightarrow> groups \<Rightarrow> groups" where
  \<comment> \<open>\<^verbatim>\<open>if (!groups[key]) groups[key] = []; groups[key].push(file)\<close>, keys in insertion order\<close>
  "push_group key file [] = [(key, [file])]"
| "push_group key file ((k, fs) # gs) =
     (if k = key then (k, fs @ [file]) # gs else (k, fs) # push_group key file gs)"

fun group_loop :: "(int \<Rightarrow> int) \<Rightarrow> (nat \<Rightarrow> int) \<Rightarrow> nat \<Rightarrow> DriveFile list \<Rightarrow> groups \<Rightarrow> groups" where
  "group_loop tz clock n [] gs = gs"
| "group_loop tz clock n (file # rest) gs =
     group_loop tz clock (n + 2) rest
       (push_group (date_key tz (clock n) (clock (n + 1)) file) file gs)"

definition groupFilesByDate :: "(int \<Rightarrow> int) \<Rightarrow> (nat \<Rightarrow> int) \<Rightarrow> DriveFile list \<Rightarrow> groups" where
  "groupFilesByDate tz clock fs = group_loop tz clock 0 fs []"

definition bucket :: "groups \<Rightarrow> string \<Rightarrow> DriveFile list" where
  \<comment> \<open>the files under a label, none when the label is absent\<close>
  "bucket gs key = (case map_of gs key of None \<Rightarrow> [] | Some fs \<Rightarrow> fs)"

section \<open>Example data\<close>

text \<open>Two records, a staged upload and three service environments, used by the examples below.\<close>

definition report_file :: DriveFile where
  "report_file =
     \<lparr>id_file = ''7c9e6679-7425-40de-944b-e07fc1f90ae7'', name = ''Report.TXT'',
      type_file = Text_kind, mimeType = ''text/plain'', size_file = 10,
      uploadDate = 1793620800000, data = ''data:text/plain;base64,aGVsbG8gd29ybA=='',
      notes_file = ''quarterly'', aiData = Some pending_enrichment\<rparr>"

definition photo_file :: DriveFile where
  "photo_file =
     \<lparr>id_file = ''0f8fad5b-d9cb-469f-a165-70867728950e'', name = ''beach.png'',
      type_file = Image_kind, mimeType = ''image/png'', size_file = 2048,
      uploadDate = 1793710800000, data = ''data:image/png;base64,iVBORw0KGgo='',
      notes_file = [], aiData = None\<rparr>"

definition staged_upload :: UploadState where
  "staged_upload =
     \<lparr>uploadFile = Some \<lparr>file_name = ''a.txt'', file_type = ''text/plain'', file_size = 10\<rparr>,
      uploadPreview = Some ''data:text/plain;base64,aGVsbG8gd29ybA=='',
      uploadName = ''a.txt'',
      uploadNotes = []\<rparr>"

definition fresh_uuid :: string where
  "fresh_uuid = ''3d6f0a3e-52b1-4c1b-9d55-3f1f6a9f2b10''"

definition staged_file :: DriveFile where
  "staged_file =
     \<lparr>id_file = fresh_uuid, name = ''a.txt'', type_file = Text_kind,
      mimeType = ''text/plain'', size_file = 10, uploadDate = 1793714400000,
      data = ''data:text/plain;base64,aGVsbG8gd29ybA=='', notes_file = [],
      aiData = Some pending_enrichment\<rparr>"

definition parse_never :: "string \<Rightarrow> error + AnalysisResult" where
  "parse_never t = Inl (SyntaxError ''Unexpected token'')"

definition call_refused :: "string \<Rightarrow> GenerateContentRequest \<Rightarrow> error + string option" where
  "call_refused ai req = Inl (Error ''fetch failed'')"

definition call_garbled :: "string \<Rightarrow> GenerateContentRequest \<Rightarrow> error + string option" where
  "call_garbled ai req = Inr (Some ''{summary'')"

definition env_without_key :: AnalysisEnv where
  "env_without_key =
     \<lparr>API_KEY = None, generateContent = call_refused, JSON_parse = parse_never\<rparr>"

definition env_offline :: AnalysisEnv where
  "env_offline =
     \<lparr>API_KEY = Some ''key-1'', generateContent = call_refused, JSON_parse = parse_never\<rparr>"

definition env_garbled :: AnalysisEnv where
  "env_garbled =
     \<lparr>API_KEY = Some ''key-1'', generateContent = call_garbled, JSON_parse = parse_never\<rparr>"

definition fixed_clock :: "int \<Rightarrow> nat \<Rightarrow> int" where
  \<comment> \<open>a clock that shows the same instant at every reading\<close>
  "fixed_clock now n = now"

definition utc :: "int \<Rightarrow> int" where
  "utc t = 0"

definition troll_zone :: "int \<Rightarrow> int" where
  \<comment> \<open>a zone two hours ahead of UTC in summer that falls back to UTC at
      2026-10-25 01:00 UTC, as the zone Antarctica/Troll of the time zone database does\<close>
  "troll_zone t = (if t < 1792890000000 then 7200000 else 0)"

definition late_evening :: int where
  \<comment> \<open>2026-10-25 23:30 UTC\<close>
  "late_evening = 1792971000000"

definition file_at :: "string \<Rightarrow> int \<Rightarrow> DriveFile" where
  "file_at i t =
     \<lparr>id_file = i, name = ''note.md'', type_file = Text_kind, mimeType = ''text/markdown'',
      size_file = 12, uploadDate = t, data = ''data:text/markdown;base64,IyBoZWxsbwo='',
      notes_file = [], aiData = None\<rparr>"

definition parse_catalog_example :: "string \<Rightarrow> error + catalog" where
  \<comment> \<open>\<^verbatim>\<open>JSON.parse\<close> on the texts of the examples: the empty array, and texts that are not JSON\<close>
  "parse_catalog_example t =
     (if t = ''[]'' then Inr [] else Inl (SyntaxError ''Unexpected token''))"

definition stringify_example :: "catalog \<Rightarrow> string" where
  \<comment> \<open>a stand-in for \<^verbatim>\<open>JSON.stringify\<close> that keeps the identifiers, in order\<close>
  "stringify_example c = concat (map (\<lambda>f. id_file f @ '';'') c)"

section \<open>Properties of the kind detection\<close>

text \<open>
  Claim C6. For every MIME type and file name the detected kind follows the fixed
  priority: a MIME type starting with \<open>image/\<close>, \<open>video/\<close> or \<open>audio/\<close> gives image, video
  or audio; otherwise the exact MIME type \<open>application/pdf\<close> gives pdf; otherwise a MIME
  type starting with \<open>text/\<close>, or a name ending in \<open>.txt\<close> or \<open>.md\<close>, gives text; anything
  else gives other. In particular \<open>image/png\<close> always gives image, \<open>application/pdf\<close> always
  gives pdf and \<open>text/plain\<close> always gives text.
\<close>

theorem getFileType_priority:
  "(prefix ''image/'' mime \<longrightarrow> getFileType mime nm = Image_kind) \<and>
   (prefix ''video/'' mime \<longrightarrow> getFileType mime nm = Video_kind) \<and>
   (prefix ''audio/'' mime \<longrightarrow> getFileType mime nm = Audio_kind) \<and>
   (mime = ''application/pdf'' \<longrightarrow> getFileType mime nm = Pdf_kind) \<and>
   (\<not> prefix ''image/'' mime \<and> \<not> prefix ''video/'' mime \<and> \<not> prefix ''audio/'' mime \<and>
      mime \<noteq> ''application/pdf'' \<and>
      (prefix ''text/'' mime \<or> suffix ''.txt'' nm \<or> suffix ''.md'' nm) \<longrightarrow>
      getFileType mime nm = Text_kind) \<and>
   (\<not> prefix ''image/'' mime \<and> \<not> prefix ''video/'' mime \<and> \<not> prefix ''audio/'' mime \<and>
      mime \<noteq> ''application/pdf'' \<and>
      \<not> prefix ''text/'' mime \<and> \<not> suffix ''.txt'' nm \<and> \<not> suffix ''.md'' nm \<longrightarrow>
      getFileType mime nm = Other_kind) \<and>
   getFileType ''image/png'' nm = Image_kind \<and>
   getFileType ''application/pdf'' nm = Pdf_kind \<and>
   getFileType ''text/plain'' nm = Text_kind"
  by (auto simp: getFileType_def prefix_def)

theorem getFileType_priority_witness:
  "prefix ''video/'' ''video/mp4'' \<and> getFileType ''video/mp4'' ''clip.md'' = Video_kind \<and>
   suffix ''.md'' ''notes.md'' \<and> getFileType ''application/zip'' ''notes.md'' = Text_kind \<and>
   getFileType ''application/zip'' ''a.bin'' = Other_kind"
  using getFileType_priority [of "''video/mp4''" "''clip.md''"]
        getFileType_priority [of "''application/zip''" "''notes.md''"]
        getFileType_priority [of "''application/zip''" "''a.bin''"]
  by (simp add: suffix_def)

section \<open>Properties of the mutations\<close>

lemma absent_after_mutation:
  "\<not> inserts_id i m \<Longrightarrow> i \<notin> ids c \<Longrightarrow> i \<notin> ids (apply_mutation m c)"
  by (cases m) (auto simp: ids_def)

lemma absent_after_mutations:
  "\<forall>m\<in>set ms. \<not> inserts_id i m \<Longrightarrow> i \<notin> ids c \<Longrightarrow> i \<notin> ids (apply_all ms c)"
proof (induction ms arbitrary: c)
  case Nil
  then show ?case by (simp add: apply_all_def)
next
  case (Cons m ms)
  from Cons.prems have "i \<notin> ids (apply_mutation m c)"
    by (simp add: absent_after_mutation)
  with Cons.IH Cons.prems(1) have "i \<notin> ids (apply_all ms (apply_mutation m c))"
    by simp
  then show ?case by (simp add: apply_all_def)
qed

lemma absent_after_delete: "i \<notin> ids (apply_mutation (Delete i) c)"
  by (auto simp: ids_def)

lemma patch_of_absent_id:
  "i \<notin> ids c \<Longrightarrow>
     apply_mutation (SuccessPatch i r) c = c \<and> apply_mutation (FailurePatch i) c = c"
  by (auto simp: ids_def intro!: map_idI)

text \<open>
  Claim C5. Once a record has been deleted through the confirmed \<open>handleDelete\<close>, and
  whatever mutations follow that do not insert its identifier again, the identifier is
  absent from the catalog, and the enrichment patch that arrives late for it (the success
  patch with any result, the failure patch, and so the patch that the handler issues
  for a record with that identifier) leaves the catalog exactly as it is: nothing is
  resurrected and no other record changes.
\<close>

theorem late_patch_after_delete:
  assumes "\<forall>m\<in>set ms. \<not> inserts_id i m"
    and "id_file newFile = i"
  shows "i \<notin> ids (apply_all ms (apply_all (handleDelete True i) c)) \<and>
         apply_mutation (SuccessPatch i r) (apply_all ms (apply_all (handleDelete True i) c))
           = apply_all ms (apply_all (handleDelete True i) c) \<and>
         apply_mutation (FailurePatch i) (apply_all ms (apply_all (handleDelete True i) c))
           = apply_all ms (apply_all (handleDelete True i) c) \<and>
         apply_mutation (enrichment_patch env newFile)
            (apply_all ms (apply_all (handleDelete True i) c))
           = apply_all ms (apply_all (handleDelete True i) c)"
proof -
  let ?c = "apply_all ms (apply_all (handleDelete True i) c)"
  have "i \<notin> ids (apply_all (handleDelete True i) c)"
    using absent_after_delete [of i c] by (simp add: handleDelete_def apply_all_def)
  with assms(1) have absent: "i \<notin> ids ?c"
    by (rule absent_after_mutations)
  then have noop: "apply_mutation (SuccessPatch i r') ?c = ?c \<and>
                   apply_mutation (FailurePatch i) ?c = ?c" for r'
    by (rule patch_of_absent_id)
  have "apply_mutation (enrichment_patch env newFile) ?c = ?c"
    using noop assms(2) by (simp add: enrichment_patch_def split: sum.splits)
  with absent noop show ?thesis
    by simp
qed

theorem late_patch_after_delete_witness:
  "\<not> inserts_id (id_file report_file) (Edit (id_file photo_file) ''sea.png'' ''holiday'') \<and>
   apply_all (handleSaveEdit (Some (id_file photo_file)) ''sea.png'' ''holiday'')
      (apply_all (handleDelete True (id_file report_file)) [photo_file, report_file])
     = [photo_file\<lparr>name := ''sea.png'', notes_file := ''holiday''\<rparr>] \<and>
   apply_mutation (enrichment_patch env_offline report_file)
      (apply_all (handleSaveEdit (Some (id_file photo_file)) ''sea.png'' ''holiday'')
         (apply_all (handleDelete True (id_file report_file)) [photo_file, report_file]))
     = [photo_file\<lparr>name := ''sea.png'', notes_file := ''holiday''\<rparr>]"
proof -
  let ?ms = "handleSaveEdit (Some (id_file photo_file)) ''sea.png'' ''holiday''"
  have edit: "?ms = [Edit (id_file photo_file) ''sea.png'' ''holiday'']"
    by (simp add: handleSaveEdit_def photo_file_def)
  then have later: "\<forall>m\<in>set ?ms. \<not> inserts_id (id_file report_file) m"
    by simp
  have left: "apply_all ?ms
                (apply_all (handleDelete True (id_file report_file)) [photo_file, report_file])
              = [photo_file\<lparr>name := ''sea.png'', notes_file := ''holiday''\<rparr>]"
    by (simp add: handleSaveEdit_def handleDelete_def apply_all_def photo_file_def
          report_file_def)
  from late_patch_after_delete
         [OF later refl, of "[photo_file, report_file]" fallback_result env_offline]
       left
  show ?thesis
    by simp
qed

section \<open>Properties of the upload confirmation\<close>

text \<open>
  Claim C9. When a payload is staged (a file and a non-empty preview), confirming the
  upload builds one new record: its identifier is the fresh value drawn for it, its kind
  is derived from the MIME type and the name, its enrichment is \<open>analyzing = true\<close> with
  empty summary and no tags, and the record is put in front of the catalog. A fresh
  identifier keeps the identifiers distinct, and with a clock that is not behind the
  records already there the catalog stays newest first by the insertion alone. Without
  a staged payload the catalog is unchanged.
\<close>

theorem confirmUpload_prepends:
  "(uploadFile u = Some file \<and> uploadPreview u = Some preview \<and> preview \<noteq> [] \<longrightarrow>
      (\<exists>newFile.
         confirm_insert u uuid now = [Insert newFile] \<and>
         apply_all (confirm_insert u uuid now) c = newFile # c \<and>
         id_file newFile = uuid \<and>
         type_file newFile = getFileType (file_type file) (uploadName u) \<and>
         aiData newFile = Some \<lparr>summary = [], tags = [], isAnalyzing = True\<rparr> \<and>
         name newFile = uploadName u \<and> notes_file newFile = uploadNotes u \<and>
         mimeType newFile = file_type file \<and> size_file newFile = file_size file \<and>
         uploadDate newFile = now \<and> data newFile = preview \<and>
         (uuid \<notin> ids c \<and> distinct (map id_file c) \<longrightarrow>
            distinct (map id_file (apply_all (confirm_insert u uuid now) c))) \<and>
         (newest_first c \<and> (\<forall>f\<in>set c. uploadDate f \<le> now) \<longrightarrow>
            newest_first (apply_all (confirm_insert u uuid now) c)))) \<and>
   (uploadFile u = None \<or> falsy (uploadPreview u) \<longrightarrow>
      apply_all (confirm_insert u uuid now) c = c)"
  by (auto simp: confirm_insert_def newFile_of_def apply_all_def pending_enrichment_def ids_def
        newest_first_def falsy_def split: option.splits)

theorem confirmUpload_prepends_witness:
  "apply_all (confirm_insert staged_upload fresh_uuid 1793714400000) [photo_file, report_file]
     = [staged_file, photo_file, report_file] \<and>
   type_file staged_file = Text_kind \<and>
   aiData staged_file = Some \<lparr>summary = [], tags = [], isAnalyzing = True\<rparr> \<and>
   distinct (map id_file
      (apply_all (confirm_insert staged_upload fresh_uuid 1793714400000)
         [photo_file, report_file])) \<and>
   newest_first
      (apply_all (confirm_insert staged_upload fresh_uuid 1793714400000)
         [photo_file, report_file]) \<and>
   apply_all (confirm_insert (staged_upload\<lparr>uploadPreview := None\<rparr>) fresh_uuid 1793714400000)
       [photo_file, report_file]
     = [photo_file, report_file]"
proof -
  let ?F = "\<lparr>file_name = ''a.txt'', file_type = ''text/plain'', file_size = 10\<rparr>"
  let ?P = "''data:text/plain;base64,aGVsbG8gd29ybA==''"
  let ?C = "[photo_file, report_file]"
  have staged: "uploadFile staged_upload = Some ?F \<and> uploadPreview staged_upload = Some ?P
                  \<and> ?P \<noteq> []"
    by (simp add: staged_upload_def)
  have fresh: "fresh_uuid \<notin> ids ?C \<and> distinct (map id_file ?C)"
    by (simp add: ids_def fresh_uuid_def photo_file_def report_file_def)
  have order: "newest_first ?C \<and> (\<forall>f\<in>set ?C. uploadDate f \<le> 1793714400000)"
    by (simp add: photo_file_def report_file_def newest_first_def)
  have unstaged: "uploadFile (staged_upload\<lparr>uploadPreview := None\<rparr>) = None
                    \<or> falsy (uploadPreview (staged_upload\<lparr>uploadPreview := None\<rparr>))"
    by (simp add: falsy_def)
  have inserted: "apply_all (confirm_insert staged_upload fresh_uuid 1793714400000) ?C
                    = [staged_file, photo_file, report_file]"
    by (simp add: confirm_insert_def newFile_of_def apply_all_def staged_upload_def
          staged_file_def getFileType_def)
  have fields: "type_file staged_file = Text_kind \<and>
                aiData staged_file = Some \<lparr>summary = [], tags = [], isAnalyzing = True\<rparr>"
    by (simp add: staged_file_def pending_enrichment_def)
  from confirmUpload_prepends [of staged_upload ?F ?P fresh_uuid 1793714400000 ?C]
       staged fresh order
  have kept: "distinct (map id_file
                 (apply_all (confirm_insert staged_upload fresh_uuid 1793714400000) ?C)) \<and>
              newest_first
                 (apply_all (confirm_insert staged_upload fresh_uuid 1793714400000) ?C)"
    by blast
  from confirmUpload_prepends
         [of "staged_upload\<lparr>uploadPreview := None\<rparr>" ?F ?P fresh_uuid 1793714400000 ?C]
       unstaged
  have early: "apply_all (confirm_insert (staged_upload\<lparr>uploadPreview := None\<rparr>) fresh_uuid
                 1793714400000) ?C = ?C"
    by blast
  from inserted fields kept early show ?thesis
    by blast
qed

section \<open>Properties of the analysis service\<close>

text \<open>
  Claim C2. Once the request is under way (the client exists), every failure of the
  transport, an empty answer and every failure to parse the answer is replaced by the
  fixed fallback result, summary \<open>Could not generate summary at this time.\<close> with the single
  tag \<open>untagged\<close>, which is returned normally: the error does not reach the caller.
\<close>

theorem analysis_fallback_on_failure:
  assumes "getClient env = Inr ai"
    and "(\<exists>e. generateContent env ai (analysis_request file) = Inl e) \<or>
         generateContent env ai (analysis_request file) = Inr None \<or>
         generateContent env ai (analysis_request file) = Inr (Some []) \<or>
         (\<exists>t e. generateContent env ai (analysis_request file) = Inr (Some t) \<and>
                JSON_parse env t = Inl e)"
  shows "analyzeFileContent env file =
           Inr \<lparr>summary = ''Could not generate summary at this time.'', tags = [''untagged'']\<rparr>"
  using assms
  by (auto simp: analyzeFileContent_def try_block_def fallback_result_def)

theorem analysis_fallback_on_failure_witness:
  "analyzeFileContent env_offline report_file =
      Inr \<lparr>summary = ''Could not generate summary at this time.'', tags = [''untagged'']\<rparr> \<and>
   analyzeFileContent env_garbled report_file =
      Inr \<lparr>summary = ''Could not generate summary at this time.'', tags = [''untagged'']\<rparr>"
proof -
  have client: "getClient env_offline = Inr ''key-1''" "getClient env_garbled = Inr ''key-1''"
    by (simp_all add: getClient_def env_offline_def env_garbled_def)
  have transport: "\<exists>e. generateContent env_offline ''key-1'' (analysis_request report_file) = Inl e"
    by (simp add: env_offline_def call_refused_def)
  have parse: "\<exists>t e. generateContent env_garbled ''key-1'' (analysis_request report_file)
                   = Inr (Some t) \<and> JSON_parse env_garbled t = Inl e"
    by (simp add: env_garbled_def call_garbled_def parse_never_def)
  from analysis_fallback_on_failure [of env_offline "''key-1''" report_file]
       analysis_fallback_on_failure [of env_garbled "''key-1''" report_file]
       client transport parse
  show ?thesis by blast
qed

text \<open>
  Claim C10. \<open>analyzeFileContent\<close> raises exactly when the configured key is absent, that
  is \<^verbatim>\<open>undefined\<close> or empty as the test \<^verbatim>\<open>!apiKey\<close> of \<open>getClient\<close> has it, and the error
  is then \<open>API Key not found\<close>. With a key it returns normally for every record: a failure
  inside the protected region gives the fallback result, a success gives the parsed
  answer.
\<close>

theorem analyzeFileContent_raises_iff_no_key:
  "((\<exists>e. analyzeFileContent env file = Inl e) \<longleftrightarrow> falsy (API_KEY env)) \<and>
   (falsy (API_KEY env) \<longrightarrow>
      analyzeFileContent env file = Inl (Error ''API Key not found'')) \<and>
   (\<forall>k. API_KEY env = Some k \<and> k \<noteq> [] \<longrightarrow>
      (\<exists>r. analyzeFileContent env file = Inr r) \<and>
      (\<forall>e. try_block env k file = Inl e \<longrightarrow>
           analyzeFileContent env file = Inr fallback_result) \<and>
      (\<forall>r. try_block env k file = Inr r \<longrightarrow> analyzeFileContent env file = Inr r))"
  by (auto simp: analyzeFileContent_def getClient_def falsy_def split: option.splits sum.splits)

theorem analyzeFileContent_raises_iff_no_key_witness:
  "analyzeFileContent env_without_key report_file = Inl (Error ''API Key not found'') \<and>
   analyzeFileContent env_offline report_file = Inr fallback_result"
proof -
  have absent: "falsy (API_KEY env_without_key)"
    by (simp add: falsy_def env_without_key_def)
  have present: "API_KEY env_offline = Some ''key-1'' \<and> ''key-1'' \<noteq> []"
    by (simp add: env_offline_def)
  have failing: "try_block env_offline ''key-1'' report_file = Inl (Error ''fetch failed'')"
    by (simp add: try_block_def env_offline_def call_refused_def)
  from analyzeFileContent_raises_iff_no_key [of env_without_key report_file]
       analyzeFileContent_raises_iff_no_key [of env_offline report_file]
       absent present failing
  show ?thesis by blast
qed

section \<open>Properties of the enrichment follow-up\<close>

text \<open>
  Claim C1 as stated fails when the analysis client throws while a key is configured:
  \<open>analyzeFileContent\<close> catches the error and returns the fallback result, so the handler
  takes its success branch. The record ends with the fallback summary and the tag
  \<open>untagged\<close>, not with \<open>Analysis failed\<close>.
\<close>

theorem client_failure_counterexample:
  "analyzeFileContent env_offline staged_file = Inr fallback_result \<and>
   handleConfirmUpload env_offline staged_upload fresh_uuid 1793714400000
     = [Insert staged_file, SuccessPatch fresh_uuid fallback_result] \<and>
   apply_all (handleConfirmUpload env_offline staged_upload fresh_uuid 1793714400000)
       [photo_file]
     = [staged_file\<lparr>aiData :=
          Some \<lparr>summary = ''Could not generate summary at this time.'',
                tags = [''untagged''], isAnalyzing = False\<rparr>\<rparr>, photo_file] \<and>
   apply_all (handleConfirmUpload env_offline staged_upload fresh_uuid 1793714400000)
       [photo_file]
     \<noteq> [staged_file\<lparr>aiData :=
          Some \<lparr>summary = ''Analysis failed'', tags = [], isAnalyzing = False\<rparr>\<rparr>, photo_file]"
  by (simp add: handleConfirmUpload_def enrichment_patch_def analyzeFileContent_def
        getClient_def try_block_def env_offline_def call_refused_def newFile_of_def
        staged_upload_def staged_file_def getFileType_def apply_all_def fresh_uuid_def
        photo_file_def success_enrichment_def fallback_result_def)

text \<open>
  Claim C1, amended. For a confirmed upload, the call of \<open>analyzeFileContent\<close> raises
  exactly when the configured key is absent (\<^verbatim>\<open>undefined\<close> or empty). In that case the
  handler issues the insertion and then the failure patch, which replaces the whole
  enrichment of every record with that identifier by \<open>analyzing = false\<close>, summary
  \<open>Analysis failed\<close>, no tags, and keeps every other field and every other record. When
  a key is configured and the protected region fails (the client throws, the answer is
  empty or does not parse), the handler issues the insertion and then the success patch
  with the fallback result. In every case exactly one of the two patches is issued, after
  the insertion, and it carries a whole enrichment.
\<close>

theorem analysis_failure_patch:
  assumes "newFile_of u uuid now = Some newFile"
  shows "((\<exists>err. analyzeFileContent env newFile = Inl err) \<longleftrightarrow> falsy (API_KEY env)) \<and>
         (falsy (API_KEY env) \<longrightarrow>
            handleConfirmUpload env u uuid now = [Insert newFile, FailurePatch uuid] \<and>
            (uuid \<notin> ids c \<longrightarrow>
               apply_all (handleConfirmUpload env u uuid now) c =
                 newFile\<lparr>aiData :=
                    Some \<lparr>summary = ''Analysis failed'', tags = [],
                          isAnalyzing = False\<rparr>\<rparr> # c)) \<and>
         (\<forall>key e. API_KEY env = Some key \<and> key \<noteq> [] \<and> try_block env key newFile = Inl e \<longrightarrow>
            handleConfirmUpload env u uuid now
              = [Insert newFile, SuccessPatch uuid fallback_result] \<and>
            (uuid \<notin> ids c \<longrightarrow>
               apply_all (handleConfirmUpload env u uuid now) c =
                 newFile\<lparr>aiData :=
                    Some \<lparr>summary = ''Could not generate summary at this time.'',
                          tags = [''untagged''], isAnalyzing = False\<rparr>\<rparr> # c)) \<and>
         (\<exists>p. handleConfirmUpload env u uuid now = [Insert newFile, p] \<and>
              filter is_enrichment_patch (handleConfirmUpload env u uuid now) = [p] \<and>
              (p = FailurePatch uuid \<or> (\<exists>r. p = SuccessPatch uuid r))) \<and>
         length (apply_mutation (FailurePatch uuid) c) = length c \<and>
         (\<forall>k<length c.
            apply_mutation (FailurePatch uuid) c ! k =
              (if id_file (c ! k) = uuid
               then (c ! k)\<lparr>aiData :=
                      Some \<lparr>summary = ''Analysis failed'', tags = [], isAnalyzing = False\<rparr>\<rparr>
               else c ! k))"
proof -
  from assms have uuid: "id_file newFile = uuid"
    by (auto simp: newFile_of_def split: option.splits if_splits)
  have raises: "(\<exists>err. analyzeFileContent env newFile = Inl err) \<longleftrightarrow> falsy (API_KEY env)"
    by (auto simp: analyzeFileContent_def getClient_def falsy_def
          split: option.splits sum.splits)
  have untouched: "apply_mutation (FailurePatch uuid) c = c \<and>
                   apply_mutation (SuccessPatch uuid r) c = c" if "uuid \<notin> ids c" for r
    using that by (auto simp: ids_def intro!: map_idI)
  have no_key: "handleConfirmUpload env u uuid now = [Insert newFile, FailurePatch uuid]"
    if "falsy (API_KEY env)"
    using that assms uuid
    by (auto simp: handleConfirmUpload_def enrichment_patch_def analyzeFileContent_def
          getClient_def falsy_def split: option.splits)
  have swallowed: "handleConfirmUpload env u uuid now
                     = [Insert newFile, SuccessPatch uuid fallback_result]"
    if "API_KEY env = Some key" "key \<noteq> []" "try_block env key newFile = Inl e" for key e
    using that assms uuid
    by (simp add: handleConfirmUpload_def enrichment_patch_def analyzeFileContent_def
          getClient_def)
  have one: "\<exists>p. handleConfirmUpload env u uuid now = [Insert newFile, p] \<and>
              filter is_enrichment_patch (handleConfirmUpload env u uuid now) = [p] \<and>
              (p = FailurePatch uuid \<or> (\<exists>r. p = SuccessPatch uuid r))"
    using assms uuid
    by (auto simp: handleConfirmUpload_def enrichment_patch_def split: sum.splits)
  have first: "falsy (API_KEY env) \<longrightarrow>
            handleConfirmUpload env u uuid now = [Insert newFile, FailurePatch uuid] \<and>
            (uuid \<notin> ids c \<longrightarrow>
               apply_all (handleConfirmUpload env u uuid now) c =
                 newFile\<lparr>aiData :=
                    Some \<lparr>summary = ''Analysis failed'', tags = [],
                          isAnalyzing = False\<rparr>\<rparr> # c)"
    using no_key uuid untouched
    by (simp add: apply_all_def failure_enrichment_def)
  have second: "\<forall>key e. API_KEY env = Some key \<and> key \<noteq> [] \<and>
                  try_block env key newFile = Inl e \<longrightarrow>
            handleConfirmUpload env u uuid now
              = [Insert newFile, SuccessPatch uuid fallback_result] \<and>
            (uuid \<notin> ids c \<longrightarrow>
               apply_all (handleConfirmUpload env u uuid now) c =
                 newFile\<lparr>aiData :=
                    Some \<lparr>summary = ''Could not generate summary at this time.'',
                          tags = [''untagged''], isAnalyzing = False\<rparr>\<rparr> # c)"
    using swallowed uuid untouched
    by (auto simp: apply_all_def success_enrichment_def fallback_result_def)
  have patch: "length (apply_mutation (FailurePatch uuid) c) = length c \<and>
         (\<forall>k<length c.
            apply_mutation (FailurePatch uuid) c ! k =
              (if id_file (c ! k) = uuid
               then (c ! k)\<lparr>aiData :=
                      Some \<lparr>summary = ''Analysis failed'', tags = [], isAnalyzing = False\<rparr>\<rparr>
               else c ! k))"
    by (simp add: failure_enrichment_def)
  from raises first second one patch show ?thesis
    by blast
qed

theorem analysis_failure_patch_witness:
  "handleConfirmUpload env_without_key staged_upload fresh_uuid 1793714400000
     = [Insert staged_file, FailurePatch fresh_uuid] \<and>
   apply_all (handleConfirmUpload env_without_key staged_upload fresh_uuid 1793714400000)
       [photo_file]
     = [staged_file\<lparr>aiData :=
          Some \<lparr>summary = ''Analysis failed'', tags = [], isAnalyzing = False\<rparr>\<rparr>, photo_file] \<and>
   handleConfirmUpload env_offline staged_upload fresh_uuid 1793714400000
     = [Insert staged_file, SuccessPatch fresh_uuid fallback_result]"
proof -
  have staged: "newFile_of staged_upload fresh_uuid 1793714400000 = Some staged_file"
    by (simp add: newFile_of_def staged_upload_def staged_file_def getFileType_def)
  have absent: "falsy (API_KEY env_without_key)"
    by (simp add: falsy_def env_without_key_def)
  have present: "API_KEY env_offline = Some ''key-1'' \<and> ''key-1'' \<noteq> [] \<and>
                 try_block env_offline ''key-1'' staged_file = Inl (Error ''fetch failed'')"
    by (simp add: try_block_def env_offline_def call_refused_def)
  have fresh: "fresh_uuid \<notin> ids [photo_file]"
    by (simp add: ids_def fresh_uuid_def photo_file_def)
  from analysis_failure_patch [OF staged, of env_without_key "[photo_file]"]
       analysis_failure_patch [OF staged, of env_offline "[photo_file]"]
       absent present fresh
  show ?thesis
    by blast
qed

section \<open>Properties of the hydration\<close>

text \<open>
  Claim C3 as stated fails for a stored entry that is not JSON: \<^verbatim>\<open>JSON.parse\<close> throws
  inside the initialiser of the state and nothing catches it, so hydration fails instead
  of giving the empty catalog.
\<close>

theorem hydrate_malformed_counterexample:
  "initial_files parse_catalog_example
      [storage_key ''user-1'' \<mapsto> ''[{'']
      ''user-1''
    = Inl (SyntaxError ''Unexpected token'')"
  by (simp add: initial_files_def parse_catalog_example_def)

text \<open>
  Claim C3, amended. A stored entry that is absent, or is the empty string, gives the
  empty catalog rather than a failure; a stored entry that parses gives the parsed
  catalog.
\<close>

theorem hydrate_absent_or_parsed:
  "(store (storage_key uid) = None \<or> store (storage_key uid) = Some [] \<longrightarrow>
      initial_files parse store uid = Inr []) \<and>
   (\<forall>saved c. store (storage_key uid) = Some saved \<and> saved \<noteq> [] \<and> parse saved = Inr c \<longrightarrow>
      initial_files parse store uid = Inr c)"
  by (auto simp: initial_files_def)

theorem hydrate_absent_or_parsed_witness:
  "initial_files parse_catalog_example Map.empty ''user-1'' = Inr [] \<and>
   initial_files parse_catalog_example [storage_key ''user-1'' \<mapsto> ''[]''] ''user-1'' = Inr []"
proof -
  have absent: "Map.empty (storage_key ''user-1'') = (None :: string option)"
    by simp
  have stored: "[storage_key ''user-1'' \<mapsto> ''[]''] (storage_key ''user-1'') = Some ''[]'' \<and>
                ''[]'' \<noteq> [] \<and> parse_catalog_example ''[]'' = Inr []"
    by (simp add: parse_catalog_example_def)
  from hydrate_absent_or_parsed [of Map.empty "''user-1''" parse_catalog_example]
       hydrate_absent_or_parsed
         [of "[storage_key ''user-1'' \<mapsto> ''[]'']" "''user-1''" parse_catalog_example]
       absent stored
  show ?thesis by blast
qed

section \<open>Properties of the persistence\<close>

lemma in_sync_persist: "in_sync stringify uid (persist stringify uid s)"
  by (simp add: in_sync_def persist_def)

lemma in_sync_step_Mutate: "in_sync stringify uid (step stringify uid (Mutate m) s)"
  by (simp add: in_sync_persist)

text \<open>
  Claim C4. After every mutation of the catalog (insert, delete, edit, enrichment
  patch), whatever events came before it, the entry of local storage under the key of the
  active user is the serialisation of the catalog in memory.
\<close>

theorem persisted_equals_memory_after_mutation:
  "in_sync stringify uid (run stringify uid (evs @ [Mutate m]) s) \<and>
   localStorage (run stringify uid (evs @ [Mutate m]) s) (storage_key uid)
     = Some (stringify (files (run stringify uid (evs @ [Mutate m]) s)))"
proof -
  have "run stringify uid (evs @ [Mutate m]) s
          = step stringify uid (Mutate m) (run stringify uid evs s)"
    by (simp add: run_def)
  then have "in_sync stringify uid (run stringify uid (evs @ [Mutate m]) s)"
    by (simp only: in_sync_step_Mutate)
  then show ?thesis
    by (simp add: in_sync_def)
qed

lemma in_sync_mount:
  "mount parse stringify store uid = Inr s \<Longrightarrow> in_sync stringify uid s"
  by (auto simp: mount_def in_sync_persist split: sum.splits)

lemma mutations_keep_sync:
  "in_sync stringify uid s \<Longrightarrow> in_sync stringify uid (run stringify uid (map Mutate ms) s)"
proof (induction ms arbitrary: s)
  case Nil
  then show ?case by (simp add: run_def)
next
  case (Cons m ms)
  have "in_sync stringify uid (step stringify uid (Mutate m) s)"
    by (rule in_sync_step_Mutate)
  from Cons.IH [OF this] show ?case by (simp add: run_def)
qed

theorem persisted_equals_memory_after_mutation_witness:
  "localStorage
      (run stringify_example ''user-1''
         ([Mutate (Insert report_file), SetFilter (initial_filter\<lparr>search := ''beach''\<rparr>),
           Mutate (Insert photo_file)] @ [Mutate (Delete (id_file report_file))])
         \<lparr>files = [], filter_state = initial_filter, localStorage = Map.empty\<rparr>)
      (storage_key ''user-1'')
     = Some ''0f8fad5b-d9cb-469f-a165-70867728950e;''"
proof -
  have "files
      (run stringify_example ''user-1''
         ([Mutate (Insert report_file), SetFilter (initial_filter\<lparr>search := ''beach''\<rparr>),
           Mutate (Insert photo_file)] @ [Mutate (Delete (id_file report_file))])
         \<lparr>files = [], filter_state = initial_filter, localStorage = Map.empty\<rparr>) = [photo_file]"
    by (simp add: run_def render_def persist_def filteredFiles_def Let_def initial_filter_def
          sort_by_date_desc_def report_file_def photo_file_def)
  with persisted_equals_memory_after_mutation
         [of stringify_example "''user-1''"
             "[Mutate (Insert report_file), SetFilter (initial_filter\<lparr>search := ''beach''\<rparr>),
               Mutate (Insert photo_file)]"
             "Delete (id_file report_file)"
             "\<lparr>files = [], filter_state = initial_filter, localStorage = Map.empty\<rparr>"]
  show ?thesis
    by (simp add: stringify_example_def photo_file_def)
qed

section \<open>Properties of the derived view\<close>

lemma derivedView_eq:
  "derivedView fs flt =
     sort_by_date_desc
       (filter (matches_type (type_filter flt))
          (filter (\<lambda>f. search flt = [] \<or> matches_search (toLowerCase (search flt)) f) fs))"
  by (cases "type_filter flt")
     (auto simp: derivedView_def filteredFiles_def Let_def matches_type_def [abs_def])

lemma sort_by_date_desc_sorted: "newest_first (sort_by_date_desc xs)"
  by (simp add: newest_first_def sort_by_date_desc_def)

lemma sort_by_date_desc_mset: "mset (sort_by_date_desc xs) = mset xs"
  by (simp add: sort_by_date_desc_def)

lemma sort_by_date_desc_stable:
  "filter (\<lambda>f. uploadDate f = t) (sort_by_date_desc xs) = filter (\<lambda>f. uploadDate f = t) xs"
proof -
  have "filter (\<lambda>f. - uploadDate f = - t) (sort_key (\<lambda>f. - uploadDate f) xs)
          = filter (\<lambda>f. - uploadDate f = - t) xs"
    by (rule sort_key_stable)
  then show ?thesis by (simp add: sort_by_date_desc_def)
qed

lemma derivedView_unfiltered:
  "search flt = [] \<Longrightarrow> type_filter flt = All_types \<Longrightarrow>
     derivedView fs flt = sort_by_date_desc fs"
  by (simp add: derivedView_eq matches_type_def)

lemma filteredFiles_keeps_state_when_filtering:
  "search flt \<noteq> [] \<or> type_filter flt \<noteq> All_types \<Longrightarrow> snd (filteredFiles fs flt) = fs"
  by (auto simp: filteredFiles_def Let_def)

lemma filteredFiles_keeps_sorted_state:
  "newest_first fs \<Longrightarrow> snd (filteredFiles fs flt) = fs"
  by (auto simp: filteredFiles_def Let_def newest_first_def sort_by_date_desc_def
        sort_key_id_if_sorted)

text \<open>
  Claim C7 asks for a pure function of the catalog and the filter. With an empty search
  and the kind filter \<open>all\<close> the view is the state array itself, and sorting it reorders
  the catalog in memory: a catalog holding an older record before a newer one is changed
  by computing the view. With a filter set, the same catalog is left as it is.
\<close>

theorem filteredFiles_sorts_state_in_place:
  "filteredFiles [report_file, photo_file] initial_filter
     = ([photo_file, report_file], [photo_file, report_file]) \<and>
   snd (filteredFiles [report_file, photo_file] initial_filter) \<noteq> [report_file, photo_file] \<and>
   snd (filteredFiles [report_file, photo_file] (initial_filter\<lparr>type_filter := Only Text_kind\<rparr>))
     = [report_file, photo_file]"
  by (simp add: filteredFiles_def Let_def initial_filter_def sort_by_date_desc_def
        matches_type_def report_file_def photo_file_def)

lemma matches_search_example:
  "derivedView [report_file, photo_file] (initial_filter\<lparr>search := ''PORT''\<rparr>) = [report_file]"
  by code_simp

section \<open>Properties of the grouping by date\<close>

lemma group_loop_fixed_clock:
  "group_loop tz (fixed_clock now) n fs gs
     = fold (\<lambda>f. push_group (date_key tz now now f) f) fs gs"
  by (induction fs arbitrary: n gs) (simp_all add: fixed_clock_def)

lemma bucket_push_group:
  "bucket (push_group k f gs) k' = (if k' = k then bucket gs k @ [f] else bucket gs k')"
  by (induction gs) (auto simp: bucket_def)

lemma bucket_fold_push:
  "bucket (fold (\<lambda>f. push_group (key f) f) fs gs) k
     = bucket gs k @ filter (\<lambda>f. key f = k) fs"
  by (induction fs arbitrary: gs) (auto simp: bucket_push_group)

lemma bucket_empty: "bucket [] k = []"
  by (simp add: bucket_def)

lemma bucket_groupFilesByDate:
  "bucket (groupFilesByDate tz (fixed_clock now) fs) k
     = filter (\<lambda>f. date_key tz now now f = k) fs"
  by (simp add: groupFilesByDate_def group_loop_fixed_clock bucket_fold_push bucket_empty)

lemma month_name_initial:
  "\<exists>c cs. month_name m = c # cs \<and> c \<noteq> CHR ''T'' \<and> c \<noteq> CHR ''Y''"
  by (simp add: month_name_def)

lemma format_long_not_relative:
  "format_long d \<noteq> ''Today'' \<and> format_long d \<noteq> ''Yesterday''"
proof -
  obtain y m dd where civil: "civil_from_days d = (y, m, dd)"
    by (cases "civil_from_days d") auto
  obtain c cs where "month_name m = c # cs" "c \<noteq> CHR ''T''" "c \<noteq> CHR ''Y''"
    using month_name_initial by blast
  with civil show ?thesis
    by (simp add: format_long_def)
qed

lemma date_key_cases:
  "(date_key tz now now f = ''Today'' \<longleftrightarrow> local_day tz (uploadDate f) = local_day tz now) \<and>
   (date_key tz now now f = ''Yesterday'' \<longleftrightarrow>
      local_day tz (uploadDate f) = local_day tz now - 1) \<and>
   (local_day tz (uploadDate f) \<noteq> local_day tz now \<and>
    local_day tz (uploadDate f) \<noteq> local_day tz now - 1 \<longrightarrow>
      date_key tz now now f = format_long (local_day tz (uploadDate f)))"
  using format_long_not_relative [of "local_day tz (uploadDate f)"]
  by (auto simp: date_key_def Let_def)

lemma earlier_day:
  assumes "- 3600000 \<le> tz now - tz (now - 90000000)"
  shows "local_day tz (now - 90000000) < local_day tz now"
proof -
  have "now - 90000000 + tz (now - 90000000) \<le> (now + tz now) - 86400000"
    using assms by simp
  then have "(now - 90000000 + tz (now - 90000000)) div 86400000
               \<le> ((now + tz now) - 86400000) div 86400000"
    by (rule zdiv_mono1) simp
  also have "((now + tz now) - 86400000) div 86400000 = (now + tz now) div 86400000 - 1"
    by simp
  finally show ?thesis
    by (simp add: local_day_def ms_per_day_def)
qed


text \<open>
  Claim C8 as stated fails in a zone whose offset falls by two hours: on the day of the
  change the local calendar day lasts 26 hours, and a record of 23:30 and one of exactly
  25 hours earlier (00:30 local time) are on the same calendar day, so both are grouped
  under \<open>Today\<close>.
\<close>

theorem grouping_same_day_counterexample:
  "groupFilesByDate troll_zone (fixed_clock late_evening)
      [file_at ''a'' late_evening, file_at ''b'' (late_evening - 25 * 3600000)]
     = [(''Today'', [file_at ''a'' late_evening, file_at ''b'' (late_evening - 25 * 3600000)])]"
  by (simp add: groupFilesByDate_def fixed_clock_def date_key_def Let_def local_day_def
        ms_per_day_def troll_zone_def late_evening_def file_at_def)

text \<open>
  Claim C8, amended. With the clock showing the same moment for every file, the bucket
  \<open>Today\<close> holds exactly the records whose local calendar day is that of the current
  moment and \<open>Yesterday\<close> exactly those of the calendar day before, each in the order of
  the input, whatever the number of hours between; every other record is in the bucket
  of its formatted date. A record uploaded at the current moment is in \<open>Today\<close>, and one
  uploaded exactly 25 hours earlier is not in \<open>Today\<close> but in \<open>Yesterday\<close> or in the bucket of
  its date, provided the local offset from UTC has not fallen by more than one hour over
  those 25 hours.
\<close>

theorem grouping_by_calendar_day:
  "bucket (groupFilesByDate tz (fixed_clock now) fs) ''Today''
     = filter (\<lambda>f. local_day tz (uploadDate f) = local_day tz now) fs \<and>
   bucket (groupFilesByDate tz (fixed_clock now) fs) ''Yesterday''
     = filter (\<lambda>f. local_day tz (uploadDate f) = local_day tz now - 1) fs \<and>
   (\<forall>f\<in>set fs.
      local_day tz (uploadDate f) \<noteq> local_day tz now \<and>
      local_day tz (uploadDate f) \<noteq> local_day tz now - 1 \<longrightarrow>
        f \<in> set (bucket (groupFilesByDate tz (fixed_clock now) fs)
                    (format_long (local_day tz (uploadDate f))))) \<and>
   (\<forall>a\<in>set fs. \<forall>b\<in>set fs.
      uploadDate a = now \<and> uploadDate b = now - 25 * 3600000 \<and>
      - 3600000 \<le> tz now - tz (now - 25 * 3600000) \<longrightarrow>
        a \<in> set (bucket (groupFilesByDate tz (fixed_clock now) fs) ''Today'') \<and>
        b \<notin> set (bucket (groupFilesByDate tz (fixed_clock now) fs) ''Today'') \<and>
        (b \<in> set (bucket (groupFilesByDate tz (fixed_clock now) fs) ''Yesterday'') \<or>
         b \<in> set (bucket (groupFilesByDate tz (fixed_clock now) fs)
                     (format_long (local_day tz (uploadDate b))))))"
proof -
  have today: "bucket (groupFilesByDate tz (fixed_clock now) fs) ''Today''
                 = filter (\<lambda>f. local_day tz (uploadDate f) = local_day tz now) fs"
    by (simp add: bucket_groupFilesByDate date_key_cases)
  have yesterday: "bucket (groupFilesByDate tz (fixed_clock now) fs) ''Yesterday''
                 = filter (\<lambda>f. local_day tz (uploadDate f) = local_day tz now - 1) fs"
    by (simp add: bucket_groupFilesByDate date_key_cases)
  have older: "f \<in> set (bucket (groupFilesByDate tz (fixed_clock now) fs)
                        (format_long (local_day tz (uploadDate f))))"
    if "f \<in> set fs" "local_day tz (uploadDate f) \<noteq> local_day tz now"
       "local_day tz (uploadDate f) \<noteq> local_day tz now - 1" for f
    using that date_key_cases [of tz now f] by (simp add: bucket_groupFilesByDate)
  have apart: "a \<in> set (bucket (groupFilesByDate tz (fixed_clock now) fs) ''Today'') \<and>
        b \<notin> set (bucket (groupFilesByDate tz (fixed_clock now) fs) ''Today'') \<and>
        (b \<in> set (bucket (groupFilesByDate tz (fixed_clock now) fs) ''Yesterday'') \<or>
         b \<in> set (bucket (groupFilesByDate tz (fixed_clock now) fs)
                     (format_long (local_day tz (uploadDate b)))))"
    if "a \<in> set fs" "b \<in> set fs" "uploadDate a = now" "uploadDate b = now - 25 * 3600000"
       "- 3600000 \<le> tz now - tz (now - 25 * 3600000)" for a b
  proof -
    from that(5) have "local_day tz (now - 90000000) < local_day tz now"
      by (intro earlier_day) simp
    with that(4) have before: "local_day tz (uploadDate b) < local_day tz now"
      by simp
    show ?thesis
    proof (cases "local_day tz (uploadDate b) = local_day tz now - 1")
      case True
      with that before show ?thesis by (simp add: today yesterday)
    next
      case False
      with before older [of b] that show ?thesis by (simp add: today)
    qed
  qed
  from today yesterday older apart show ?thesis
    by blast
qed


theorem grouping_by_calendar_day_witness:
  "groupFilesByDate utc (fixed_clock 1793714400000)
      [file_at ''a'' 1793714400000, file_at ''n'' 1793662200000,
       file_at ''b'' (1793714400000 - 25 * 3600000), file_at ''o'' 1709168400000]
     = [(''Today'', [file_at ''a'' 1793714400000]),
        (''Yesterday'', [file_at ''n'' 1793662200000,
                         file_at ''b'' (1793714400000 - 25 * 3600000)]),
        (''February 29, 2024'', [file_at ''o'' 1709168400000])] \<and>
   file_at ''a'' 1793714400000
     \<in> set (bucket (groupFilesByDate utc (fixed_clock 1793714400000)
                 [file_at ''a'' 1793714400000, file_at ''n'' 1793662200000,
                  file_at ''b'' (1793714400000 - 25 * 3600000), file_at ''o'' 1709168400000])
               ''Today'') \<and>
   file_at ''b'' (1793714400000 - 25 * 3600000)
     \<notin> set (bucket (groupFilesByDate utc (fixed_clock 1793714400000)
                 [file_at ''a'' 1793714400000, file_at ''n'' 1793662200000,
                  file_at ''b'' (1793714400000 - 25 * 3600000), file_at ''o'' 1709168400000])
               ''Today'')"
proof -
  let ?a = "file_at ''a'' 1793714400000"
  let ?b = "file_at ''b'' (1793714400000 - 25 * 3600000)"
  let ?fs = "[?a, file_at ''n'' 1793662200000, ?b, file_at ''o'' 1709168400000]"
  have label: "format_long 19782 = ''February 29, 2024''"
    by code_simp
  have groups: "groupFilesByDate utc (fixed_clock 1793714400000) ?fs
     = [(''Today'', [?a]),
        (''Yesterday'', [file_at ''n'' 1793662200000, ?b]),
        (''February 29, 2024'', [file_at ''o'' 1709168400000])]"
    by (simp add: groupFilesByDate_def fixed_clock_def date_key_def Let_def local_day_def
          ms_per_day_def utc_def file_at_def label)
  have members: "?a \<in> set ?fs" "?b \<in> set ?fs"
    by simp_all
  have moments: "uploadDate ?a = 1793714400000 \<and>
                 uploadDate ?b = 1793714400000 - 25 * 3600000 \<and>
                 - 3600000 \<le> utc 1793714400000 - utc (1793714400000 - 25 * 3600000)"
    by (simp add: file_at_def utc_def)
  from grouping_by_calendar_day [of utc 1793714400000 ?fs] members moments
  have "?a \<in> set (bucket (groupFilesByDate utc (fixed_clock 1793714400000) ?fs) ''Today'') \<and>
        ?b \<notin> set (bucket (groupFilesByDate utc (fixed_clock 1793714400000) ?fs) ''Today'')"
    by blast
  with groups show ?thesis
    by blast
qed

end
